theory Spec2Isabelle
  imports Main
begin

section \<open>The livy\_server management command\<close>

text \<open>
  The whole program is \<^verbatim>\<open>Command.handle\<close> of
  \<^verbatim>\<open>apps/spark/src/spark/management/commands/livy_server.py\<close>:

  \<^verbatim>\<open>
  def handle(self, *args, **kwargs):
      if not args:
        session_kind = 'process'
      else:
        session_kind = args[0].lower()

      env = os.environ.copy()

      args = [
        os.path.join(
          os.path.dirname(__file__),
          "..", "..", "..", "..", "java", "bin", "livy-server"),
        session_kind,
      ]

      LOG.info("Executing %r (%r) (%r)" % (bin, args, env))

      # Use exec, so that this takes only one process.
      os.execve(args[0], args, env)
  \<close>

  Strings are Python 2 byte strings, hence \<^typ>\<open>string\<close> (a list of 8-bit characters).
  The positional arguments \<^verbatim>\<open>*args\<close> are a \<^typ>\<open>string list\<close>; \<^verbatim>\<open>self\<close> and
  \<^verbatim>\<open>**kwargs\<close> are never read and are left out. The module's \<^verbatim>\<open>__file__\<close> is a
  parameter.
\<close>

subsection \<open>The library functions the command calls\<close>

text \<open>
  \<^verbatim>\<open>str.lower\<close> on a byte string (C locale): the bytes \<^verbatim>\<open>A\<close> to \<^verbatim>\<open>Z\<close> (65 to 90) are
  moved to \<^verbatim>\<open>a\<close> to \<^verbatim>\<open>z\<close>, every other byte is kept.
\<close>

definition isupper :: "char \<Rightarrow> bool" where
  "isupper c = (65 \<le> (of_char c :: nat) \<and> (of_char c :: nat) \<le> 90)"

definition tolower :: "char \<Rightarrow> char" where
  "tolower c = (if isupper c then char_of ((of_char c :: nat) + 32) else c)"

definition lower :: "string \<Rightarrow> string" where
  "lower s = map tolower s"

text \<open>
  \<^verbatim>\<open>str.rfind\<close> for a one-character needle: the highest index of \<open>c\<close> in \<open>p\<close>, or
  \<open>-1\<close> when \<open>c\<close> does not occur.
\<close>

definition rfind :: "string \<Rightarrow> char \<Rightarrow> int" where
  "rfind p c = int (length (dropWhile (\<lambda>x. x \<noteq> c) (rev p))) - 1"

text \<open>\<^verbatim>\<open>head.rstrip('/')\<close>: all trailing slashes removed.\<close>

definition rstrip :: "string \<Rightarrow> char \<Rightarrow> string" where
  "rstrip s c = rev (dropWhile (\<lambda>x. x = c) (rev s))"

text \<open>
  \<^verbatim>\<open>os.path.dirname\<close> (posixpath):

  \<^verbatim>\<open>
  def dirname(p):
      i = p.rfind('/') + 1
      head = p[:i]
      if head and head != '/'*len(head):
          head = head.rstrip('/')
      return head
  \<close>
\<close>

definition dirname :: "string \<Rightarrow> string" where
  "dirname p =
     (let i = rfind p (CHR ''/'') + 1;
          head = take (nat i) p
      in if head \<noteq> [] \<and> head \<noteq> replicate (length head) (CHR ''/'')
         then rstrip head (CHR ''/'')
         else head)"

definition startswith :: "string \<Rightarrow> string \<Rightarrow> bool" where
  "startswith s pre = (take (length pre) s = pre)"

definition endswith :: "string \<Rightarrow> string \<Rightarrow> bool" where
  "endswith s suf = (drop (length s - length suf) s = suf)"

text \<open>
  \<^verbatim>\<open>os.path.join\<close> (posixpath):

  \<^verbatim>\<open>
  def join(a, *p):
      path = a
      for b in p:
          if b.startswith('/'):
              path = b
          elif path == '' or path.endswith('/'):
              path +=  b
          else:
              path += '/' + b
      return path
  \<close>
\<close>

fun join :: "string \<Rightarrow> string list \<Rightarrow> string" where
  "join path [] = path"
| "join path (b # p) =
     join (if startswith b ''/'' then b
           else if path = [] \<or> endswith path ''/'' then path @ b
           else path @ ''/'' @ b) p"

subsection \<open>The process and its effects\<close>

type_synonym environment = "string \<rightharpoonup> string"

text \<open>
  The values formatted into the log line: the built-in function object a global name
  stands for, a string, a list of strings, a dictionary.
\<close>

datatype pyval =
    Builtin string
  | Str string
  | StrList "string list"
  | Dict environment

datatype level = DEBUG | INFO | WARNING | ERROR

text \<open>
  What the process does to the outside, in the order it does it: a record handed to the
  logger (level, format string, the operands of \<^verbatim>\<open>%\<close>), and a call of \<^verbatim>\<open>os.execve\<close>
  (file, argument vector, environment).
\<close>

datatype event =
    Log level string "pyval list"
  | Execve string "string list" environment

record world =
  environ :: environment
  trace :: "event list"

text \<open>
  \<^verbatim>\<open>os.execve\<close> raises \<^verbatim>\<open>OSError\<close> with the errno of the failed system call, and
  \<^verbatim>\<open>TypeError\<close> for an argument it cannot hand to the system call.
\<close>

datatype exn = OSError nat | TypeError

text \<open>
  How a call of \<^verbatim>\<open>handle\<close> ends. \<^verbatim>\<open>os.execve\<close> never returns: either the process
  image is replaced by the file, or the call raises; \<^verbatim>\<open>handle\<close> catches nothing.
\<close>

datatype outcome = Replaced | Raised exn

text \<open>
  The answer of the operating system to an \<^verbatim>\<open>os.execve\<close> call is a parameter of the
  model: \<open>None\<close> when the image is replaced, \<open>Some e\<close> when the call raises \<open>e\<close>.
\<close>

type_synonym execve_result = "string \<Rightarrow> string list \<Rightarrow> environment \<Rightarrow> exn option"

definition os_environ_copy :: "world \<Rightarrow> environment \<times> world" where
  "os_environ_copy w = (environ w, w)"

definition LOG_info :: "string \<Rightarrow> pyval list \<Rightarrow> world \<Rightarrow> world" where
  "LOG_info fmt vals w = w\<lparr>trace := trace w @ [Log INFO fmt vals]\<rparr>"

definition os_execve ::
  "execve_result \<Rightarrow> string \<Rightarrow> string list \<Rightarrow> environment \<Rightarrow> world \<Rightarrow> outcome \<times> world" where
  "os_execve sys path argv env w =
     (case sys path argv env of
        None \<Rightarrow> (Replaced, w\<lparr>trace := trace w @ [Execve path argv env]\<rparr>)
      | Some e \<Rightarrow> (Raised e, w\<lparr>trace := trace w @ [Execve path argv env]\<rparr>))"

subsection \<open>The command\<close>

definition session_kind :: "string list \<Rightarrow> string" where
  "session_kind args = (if args = [] then ''process'' else lower (args ! 0))"

text \<open>
  The file to execute (lines 45 to 53): four levels up from the directory of the module,
  then \<^verbatim>\<open>java/bin/livy-server\<close>.
\<close>

definition livy_server :: "string \<Rightarrow> string" where
  "livy_server file =
     join (dirname file) [''..'', ''..'', ''..'', ''..'', ''java'', ''bin'', ''livy-server'']"

text \<open>
  Lines 37 to 57, everything \<^verbatim>\<open>handle\<close> does before the call of \<^verbatim>\<open>os.execve\<close>: the
  new value of \<^verbatim>\<open>args\<close>, the value of \<^verbatim>\<open>env\<close>, and the world with the log record
  written. The module has no variable \<^verbatim>\<open>bin\<close>, local or global, so the name in the log
  statement is Python's built-in function.
\<close>

definition prepare :: "string \<Rightarrow> string list \<Rightarrow> world \<Rightarrow> (string list \<times> environment) \<times> world" where
  "prepare file args w =
     (let kind = session_kind args;
          (env, w1) = os_environ_copy w;
          args' = [livy_server file, kind];
          w2 = LOG_info ''Executing %r (%r) (%r)''
                 [Builtin ''bin'', StrList args', Dict env] w1
      in ((args', env), w2))"

text \<open>Line 60 after them: \<^verbatim>\<open>os.execve(args[0], args, env)\<close>.\<close>

definition handle :: "execve_result \<Rightarrow> string \<Rightarrow> string list \<Rightarrow> world \<Rightarrow> outcome \<times> world" where
  "handle sys file args w =
     (let ((args', env), w2) = prepare file args w
      in os_execve sys (args' ! 0) args' env w2)"

text \<open>The \<^verbatim>\<open>os.execve\<close> calls of a trace, in order.\<close>

fun execve_calls :: "event list \<Rightarrow> (string \<times> string list \<times> environment) list" where
  "execve_calls [] = []"
| "execve_calls (Execve path argv env # es) = (path, argv, env) # execve_calls es"
| "execve_calls (Log l fmt vals # es) = execve_calls es"

section \<open>Properties\<close>

subsection \<open>The library functions\<close>

lemma lower_YARN: "lower ''YARN'' = ''yarn''"
  by code_simp

lemma lower_Bogus: "lower ''Bogus'' = ''bogus''"
  by code_simp

lemma length_lower: "length (lower s) = length s"
  by (simp add: lower_def)

lemma isupper_tolower: "\<not> isupper (tolower c)"
  by (simp add: isupper_def tolower_def of_char_of)

lemma tolower_idem: "tolower (tolower c) = tolower c"
  by (simp add: tolower_def [of "tolower c"] isupper_tolower)

lemma lower_idem: "lower (lower s) = lower s"
  by (simp add: lower_def tolower_idem)

lemma lower_letters:
  "lower ''ABCDEFGHIJKLMNOPQRSTUVWXYZ'' = ''abcdefghijklmnopqrstuvwxyz''"
  by code_simp

lemma lower_keeps_others: "lower ''az09 -_/.@[`{'' = ''az09 -_/.@[`{''"
  by code_simp

lemma dirname_no_slash: "dirname ''livy_server.py'' = []"
  by code_simp

lemma dirname_root: "dirname ''/livy_server.py'' = ''/''"
  by code_simp

lemma dirname_double_slash: "dirname ''commands//livy_server.py'' = ''commands''"
  by code_simp

lemma endswith_slash: "endswith s ''/'' = (s \<noteq> [] \<and> last s = CHR ''/'')"
  by (cases s rule: rev_cases) (simp_all add: endswith_def)

lemma startswith_slash: "startswith s ''/'' = (s \<noteq> [] \<and> hd s = CHR ''/'')"
  by (cases s) (simp_all add: startswith_def)

text \<open>One round of the loop of \<^verbatim>\<open>join\<close>, for a component that is appended after a slash.\<close>

lemma join_plain:
  "b \<noteq> [] \<Longrightarrow> hd b \<noteq> CHR ''/'' \<Longrightarrow> path \<noteq> [] \<Longrightarrow> last path \<noteq> CHR ''/'' \<Longrightarrow>
   join path (b # p) = join (path @ ''/'' @ b) p"
  by (simp add: startswith_slash endswith_slash)

lemma join_first:
  "join a (''..'' # p) =
     join (a @ (if a = [] \<or> endswith a ''/'' then [] else ''/'') @ ''..'') p"
  by (simp add: startswith_slash)

lemma join_rest:
  assumes "path \<noteq> []" and "last path \<noteq> CHR ''/''"
  shows "join path [''..'', ''..'', ''..'', ''java'', ''bin'', ''livy-server''] =
           path @ ''/../../../java/bin/livy-server''"
proof -
  have "join path [''..'', ''..'', ''..'', ''java'', ''bin'', ''livy-server''] =
          join (path @ ''/..'') [''..'', ''..'', ''java'', ''bin'', ''livy-server'']"
    using assms by (subst join_plain) simp_all
  also have "\<dots> = join (path @ ''/../..'') [''..'', ''java'', ''bin'', ''livy-server'']"
    by (subst join_plain) simp_all
  also have "\<dots> = join (path @ ''/../../..'') [''java'', ''bin'', ''livy-server'']"
    by (subst join_plain) simp_all
  also have "\<dots> = join (path @ ''/../../../java'') [''bin'', ''livy-server'']"
    by (subst join_plain) simp_all
  also have "\<dots> = join (path @ ''/../../../java/bin'') [''livy-server'']"
    by (subst join_plain) simp_all
  also have "\<dots> = join (path @ ''/../../../java/bin/livy-server'') []"
    by (subst join_plain) simp_all
  finally show ?thesis by simp
qed

lemma livy_server_literal:
  "livy_server file =
     dirname file @ (if dirname file = [] \<or> endswith (dirname file) ''/'' then [] else ''/'')
       @ ''../../../../java/bin/livy-server''"
proof -
  let ?a = "dirname file"
  let ?p = "?a @ (if ?a = [] \<or> endswith ?a ''/'' then [] else ''/'') @ ''..''"
  have "livy_server file = join ?p [''..'', ''..'', ''..'', ''java'', ''bin'', ''livy-server'']"
    unfolding livy_server_def by (rule join_first)
  also have "\<dots> = ?p @ ''/../../../java/bin/livy-server''"
    by (rule join_rest) simp_all
  finally show ?thesis by simp
qed

text \<open>The layout of an installation under \<^verbatim>\<open>/opt/hue\<close>, used in the examples below.\<close>

lemma dirname_installed:
  "dirname ''/opt/hue/apps/spark/src/spark/management/commands/livy_server.py'' =
     ''/opt/hue/apps/spark/src/spark/management/commands''"
  by code_simp

lemma livy_server_installed:
  "livy_server ''/opt/hue/apps/spark/src/spark/management/commands/livy_server.py'' =
     ''/opt/hue/apps/spark/src/spark/management/commands/../../../../java/bin/livy-server''"
  by code_simp

subsection \<open>What one call of the command does\<close>

lemma execve_calls_append: "execve_calls (xs @ ys) = execve_calls xs @ execve_calls ys"
  by (induction xs rule: execve_calls.induct) simp_all

lemma prepare_eq:
  "prepare file args w =
     (([livy_server file, session_kind args], environ w),
      w\<lparr>trace := trace w @ [Log INFO ''Executing %r (%r) (%r)''
           [Builtin ''bin'', StrList [livy_server file, session_kind args], Dict (environ w)]]\<rparr>)"
  by (simp add: prepare_def os_environ_copy_def LOG_info_def Let_def)

lemma handle_eq:
  "handle sys file args w =
     os_execve sys (livy_server file) [livy_server file, session_kind args] (environ w)
       (snd (prepare file args w))"
  by (simp add: handle_def prepare_eq)

lemma os_execve_trace:
  "trace (snd (os_execve sys path argv env w)) = trace w @ [Execve path argv env]"
  by (simp add: os_execve_def split: option.split)

lemma os_execve_environ:
  "environ (snd (os_execve sys path argv env w)) = environ w"
  by (simp add: os_execve_def split: option.split)

lemma os_execve_outcome:
  "fst (os_execve sys path argv env w) =
     (case sys path argv env of None \<Rightarrow> Replaced | Some e \<Rightarrow> Raised e)"
  by (simp add: os_execve_def split: option.split)

lemma handle_trace:
  "trace (snd (handle sys file args w)) =
     trace w @
       [Log INFO ''Executing %r (%r) (%r)''
          [Builtin ''bin'', StrList [livy_server file, session_kind args], Dict (environ w)],
        Execve (livy_server file) [livy_server file, session_kind args] (environ w)]"
  by (simp add: handle_eq os_execve_trace prepare_eq)

lemma handle_calls:
  "execve_calls (trace (snd (handle sys file args w))) =
     execve_calls (trace w) @
       [(livy_server file, [livy_server file, session_kind args], environ w)]"
  by (simp add: handle_trace execve_calls_append)

lemma handle_outcome:
  "fst (handle sys file args w) =
     (case sys (livy_server file) [livy_server file, session_kind args] (environ w) of
        None \<Rightarrow> Replaced | Some e \<Rightarrow> Raised e)"
  by (simp add: handle_eq os_execve_outcome)

lemma handle_environ: "environ (snd (handle sys file args w)) = environ w"
  by (simp add: handle_eq os_execve_environ prepare_eq)

lemma handle_world:
  "snd (handle sys file args w) =
     (snd (prepare file args w))
       \<lparr>trace := trace (snd (prepare file args w)) @
          [Execve (livy_server file) [livy_server file, session_kind args] (environ w)]\<rparr>"
  by (simp add: handle_eq os_execve_def split: option.split)

lemma session_kind_first:
  "(args1 \<noteq> [] \<and> args2 \<noteq> [] \<and> args1 ! 0 = args2 ! 0) \<or> (args1 = [] \<and> args2 = []) \<Longrightarrow>
   session_kind args1 = session_kind args2"
  by (auto simp: session_kind_def)

subsection \<open>The claims\<close>

text \<open>
  C1. For every argument sequence, a call of \<^verbatim>\<open>handle\<close> adds exactly one \<^verbatim>\<open>os.execve\<close>
  call to those the process has made. Its argument vector is the two-element list of the
  resolved path and the session kind, its environment is the snapshot taken by
  \<^verbatim>\<open>os.environ.copy()\<close>, and the file it executes is element 0 of the vector.
\<close>

theorem handle_execve_once:
  "(let argv = [livy_server file, session_kind args];
        env = fst (os_environ_copy w)
    in execve_calls (trace (snd (handle sys file args w))) =
         execve_calls (trace w) @ [(argv ! 0, argv, env)])"
  by (simp add: handle_calls os_environ_copy_def)

theorem handle_execve_once_witness:
  "execve_calls (trace (snd (handle (\<lambda>p a e. None)
       ''/opt/hue/apps/spark/src/spark/management/commands/livy_server.py'' []
       \<lparr>environ = [''HOME'' \<mapsto> ''/root''], trace = []\<rparr>))) =
     [(''/opt/hue/apps/spark/src/spark/management/commands/../../../../java/bin/livy-server'',
       [''/opt/hue/apps/spark/src/spark/management/commands/../../../../java/bin/livy-server'',
        ''process''],
       [''HOME'' \<mapsto> ''/root''])]"
  using handle_execve_once [of "''/opt/hue/apps/spark/src/spark/management/commands/livy_server.py''"
      "[]" "\<lparr>environ = [''HOME'' \<mapsto> ''/root''], trace = []\<rparr>" "\<lambda>p a e. None"]
  by (simp add: livy_server_installed session_kind_def os_environ_copy_def)

text \<open>
  C2. With no argument the session kind is \<^verbatim>\<open>process\<close>; with at least one argument it
  is the first argument in lower case, whatever follows it.
\<close>

theorem session_kind_chosen:
  "session_kind [] = ''process'' \<and> session_kind (a # rest) = lower a"
  by (simp add: session_kind_def)

theorem session_kind_chosen_witness:
  "session_kind [] = ''process'' \<and> session_kind [''YARN''] = ''yarn''"
  using session_kind_chosen [of "''YARN''" "[]"] by (simp add: lower_YARN)

text \<open>
  C3. When the \<^verbatim>\<open>os.execve\<close> call fails with an \<^verbatim>\<open>OSError\<close> (the file is missing or
  not executable, or the system refuses), \<^verbatim>\<open>handle\<close> ends by raising that same error
  and the process image is not replaced. The call was made once and nothing follows it:
  the world is the one in which the call was made, with the call recorded, and the
  environment of the process is the one at entry.
\<close>

theorem execve_failure_propagates:
  assumes "sys (livy_server file) [livy_server file, session_kind args] (environ w) =
             Some (OSError n)"
  shows "fst (handle sys file args w) = Raised (OSError n) \<and>
         fst (handle sys file args w) \<noteq> Replaced \<and>
         execve_calls (trace (snd (handle sys file args w))) =
           execve_calls (trace w) @
             [(livy_server file, [livy_server file, session_kind args], environ w)] \<and>
         snd (handle sys file args w) =
           (snd (prepare file args w))
             \<lparr>trace := trace (snd (prepare file args w)) @
                [Execve (livy_server file) [livy_server file, session_kind args] (environ w)]\<rparr> \<and>
         environ (snd (handle sys file args w)) = environ w"
proof -
  have raised: "fst (handle sys file args w) = Raised (OSError n)"
    using assms by (simp add: handle_outcome)
  show ?thesis
    by (intro conjI handle_calls handle_world handle_environ) (simp_all add: raised)
qed

theorem execve_failure_propagates_witness:
  "(\<lambda>p a e. Some (OSError 2))
     (livy_server ''/opt/hue/apps/spark/src/spark/management/commands/livy_server.py'')
     [livy_server ''/opt/hue/apps/spark/src/spark/management/commands/livy_server.py'',
      session_kind [''yarn'']]
     (environ \<lparr>environ = [''HOME'' \<mapsto> ''/root''], trace = []\<rparr>) = Some (OSError 2) \<and>
   fst (handle (\<lambda>p a e. Some (OSError 2))
     ''/opt/hue/apps/spark/src/spark/management/commands/livy_server.py'' [''yarn'']
     \<lparr>environ = [''HOME'' \<mapsto> ''/root''], trace = []\<rparr>) = Raised (OSError 2) \<and>
   execve_calls (trace (snd (handle (\<lambda>p a e. Some (OSError 2))
     ''/opt/hue/apps/spark/src/spark/management/commands/livy_server.py'' [''yarn'']
     \<lparr>environ = [''HOME'' \<mapsto> ''/root''], trace = []\<rparr>))) =
     [(''/opt/hue/apps/spark/src/spark/management/commands/../../../../java/bin/livy-server'',
       [''/opt/hue/apps/spark/src/spark/management/commands/../../../../java/bin/livy-server'',
        ''yarn''],
       [''HOME'' \<mapsto> ''/root''])] \<and>
   environ (snd (handle (\<lambda>p a e. Some (OSError 2))
     ''/opt/hue/apps/spark/src/spark/management/commands/livy_server.py'' [''yarn'']
     \<lparr>environ = [''HOME'' \<mapsto> ''/root''], trace = []\<rparr>)) = [''HOME'' \<mapsto> ''/root'']"
proof -
  have h: "(\<lambda>p a e. Some (OSError 2))
     (livy_server ''/opt/hue/apps/spark/src/spark/management/commands/livy_server.py'')
     [livy_server ''/opt/hue/apps/spark/src/spark/management/commands/livy_server.py'',
      session_kind [''yarn'']]
     (environ \<lparr>environ = [''HOME'' \<mapsto> ''/root''], trace = []\<rparr>) = Some (OSError 2)"
    by simp
  have k: "session_kind [''yarn''] = ''yarn''"
    by code_simp
  show ?thesis
    using execve_failure_propagates [OF h]
    by (simp add: livy_server_installed k prepare_eq execve_calls_append)
qed

text \<open>
  C4. The file handed to \<^verbatim>\<open>os.execve\<close> is the join of the directory of the module
  with four \<^verbatim>\<open>..\<close> and \<^verbatim>\<open>java\<close>, \<^verbatim>\<open>bin\<close>, \<^verbatim>\<open>livy-server\<close>. It depends on the place of
  the module only: any two argument sequences, in any two worlds, give the same path.
\<close>

theorem livy_server_fixed:
  "map fst (execve_calls (trace (snd (handle sys file args w)))) =
     map fst (execve_calls (trace w)) @
       [join (dirname file) [''..'', ''..'', ''..'', ''..'', ''java'', ''bin'', ''livy-server'']] \<and>
   fst (fst (prepare file args w)) ! 0 = fst (fst (prepare file args' w')) ! 0"
  by (simp add: handle_calls prepare_eq livy_server_def)

theorem livy_server_fixed_witness:
  "map fst (execve_calls (trace (snd (handle (\<lambda>p a e. None)
       ''/opt/hue/apps/spark/src/spark/management/commands/livy_server.py'' [''yarn'']
       \<lparr>environ = Map.empty, trace = []\<rparr>)))) =
     [''/opt/hue/apps/spark/src/spark/management/commands/../../../../java/bin/livy-server''] \<and>
   map fst (execve_calls (trace (snd (handle (\<lambda>p a e. None)
       ''/opt/hue/apps/spark/src/spark/management/commands/livy_server.py'' []
       \<lparr>environ = Map.empty, trace = []\<rparr>)))) =
     [''/opt/hue/apps/spark/src/spark/management/commands/../../../../java/bin/livy-server'']"
  using livy_server_fixed [of "\<lambda>p a e. None"
      "''/opt/hue/apps/spark/src/spark/management/commands/livy_server.py''" "[''yarn'']"
      "\<lparr>environ = Map.empty, trace = []\<rparr>"]
    livy_server_fixed [of "\<lambda>p a e. None"
      "''/opt/hue/apps/spark/src/spark/management/commands/livy_server.py''" "[]"
      "\<lparr>environ = Map.empty, trace = []\<rparr>"]
  unfolding livy_server_def [symmetric]
  by (simp add: livy_server_installed)

text \<open>
  C5. The value of \<^verbatim>\<open>env\<close> is the environment of the process in the world in which
  \<^verbatim>\<open>os.execve\<close> is called, and this mapping, unmodified, is the environment of the one
  call \<^verbatim>\<open>handle\<close> makes.
\<close>

theorem environment_forwarded:
  "snd (fst (prepare file args w)) = environ (snd (prepare file args w)) \<and>
   map (snd \<circ> snd) (execve_calls (trace (snd (handle sys file args w)))) =
     map (snd \<circ> snd) (execve_calls (trace w)) @ [environ (snd (prepare file args w))]"
  by (simp add: handle_calls prepare_eq)

theorem environment_forwarded_witness:
  "map (snd \<circ> snd) (execve_calls (trace (snd (handle (\<lambda>p a e. None)
       ''/opt/hue/apps/spark/src/spark/management/commands/livy_server.py'' [''yarn'']
       \<lparr>environ = [''HOME'' \<mapsto> ''/root'', ''JAVA_HOME'' \<mapsto> ''/usr/lib/jvm''], trace = []\<rparr>)))) =
     [[''HOME'' \<mapsto> ''/root'', ''JAVA_HOME'' \<mapsto> ''/usr/lib/jvm'']]"
  using environment_forwarded [of
      "''/opt/hue/apps/spark/src/spark/management/commands/livy_server.py''" "[''yarn'']"
      "\<lparr>environ = [''HOME'' \<mapsto> ''/root'', ''JAVA_HOME'' \<mapsto> ''/usr/lib/jvm''], trace = []\<rparr>"
      "\<lambda>p a e. None"]
  by (simp add: prepare_eq)

text \<open>
  C6. Two argument sequences that are both empty, or both non-empty with the same first
  element, give the same session kind, the same preparation (argument vector,
  environment, log record) and the same result of \<^verbatim>\<open>handle\<close>: arguments after the
  first are ignored.
\<close>

theorem extra_arguments_ignored:
  assumes "(args1 \<noteq> [] \<and> args2 \<noteq> [] \<and> args1 ! 0 = args2 ! 0) \<or> (args1 = [] \<and> args2 = [])"
  shows "session_kind args1 = session_kind args2 \<and>
         prepare file args1 w = prepare file args2 w \<and>
         handle sys file args1 w = handle sys file args2 w"
proof -
  have "session_kind args1 = session_kind args2"
    using assms by (rule session_kind_first)
  then show ?thesis
    by (simp add: handle_def prepare_eq)
qed

theorem extra_arguments_ignored_witness:
  "handle (\<lambda>p a e. None) ''/opt/hue/apps/spark/src/spark/management/commands/livy_server.py''
     [''yarn'', ''--debug'', ''more''] \<lparr>environ = Map.empty, trace = []\<rparr> =
   handle (\<lambda>p a e. None) ''/opt/hue/apps/spark/src/spark/management/commands/livy_server.py''
     [''yarn''] \<lparr>environ = Map.empty, trace = []\<rparr>"
proof -
  have h: "([''yarn'', ''--debug'', ''more''] \<noteq> [] \<and> [''yarn''] \<noteq> [] \<and>
            [''yarn'', ''--debug'', ''more''] ! 0 = [''yarn''] ! 0) \<or>
           ([''yarn'', ''--debug'', ''more''] = [] \<and> [''yarn''] = [])"
    by simp
  show ?thesis
    using extra_arguments_ignored [OF h] by simp
qed


text \<open>
  C8. For every non-empty argument sequence, whatever its first element \<open>a\<close> is, the
  argument vector of the call is the resolved path followed by \<open>a\<close> in lower case, and
  the command ends as the \<^verbatim>\<open>os.execve\<close> call does: \<^verbatim>\<open>handle\<close> itself rejects no kind.
\<close>

theorem session_kind_not_validated:
  "map (fst \<circ> snd) (execve_calls (trace (snd (handle sys file (a # rest) w)))) =
     map (fst \<circ> snd) (execve_calls (trace w)) @ [[livy_server file, lower a]] \<and>
   fst (handle sys file (a # rest) w) =
     (case sys (livy_server file) [livy_server file, lower a] (environ w) of
        None \<Rightarrow> Replaced | Some e \<Rightarrow> Raised e)"
  by (simp add: handle_calls handle_outcome session_kind_def)

theorem session_kind_not_validated_witness:
  "map (fst \<circ> snd) (execve_calls (trace (snd (handle (\<lambda>p a e. None)
       ''/opt/hue/apps/spark/src/spark/management/commands/livy_server.py'' [''Bogus'']
       \<lparr>environ = Map.empty, trace = []\<rparr>)))) =
     [[''/opt/hue/apps/spark/src/spark/management/commands/../../../../java/bin/livy-server'',
       ''bogus'']] \<and>
   fst (handle (\<lambda>p a e. None)
       ''/opt/hue/apps/spark/src/spark/management/commands/livy_server.py'' [''Bogus'']
       \<lparr>environ = Map.empty, trace = []\<rparr>) = Replaced"
  using session_kind_not_validated [of "\<lambda>p a e. None"
      "''/opt/hue/apps/spark/src/spark/management/commands/livy_server.py''" "''Bogus''" "[]"
      "\<lparr>environ = Map.empty, trace = []\<rparr>"]
  by (simp add: livy_server_installed lower_Bogus)

text \<open>
  C9. The path handed to \<^verbatim>\<open>os.execve\<close> is the directory of the module, a slash unless
  that directory is empty or ends in one, and the literal text
  \<^verbatim>\<open>../../../../java/bin/livy-server\<close>: the four \<^verbatim>\<open>..\<close> segments are not collapsed.
\<close>

theorem livy_server_not_normalised:
  "map fst (execve_calls (trace (snd (handle sys file args w)))) =
     map fst (execve_calls (trace w)) @
       [dirname file @ (if dirname file = [] \<or> endswith (dirname file) ''/'' then [] else ''/'')
          @ ''../../../../java/bin/livy-server'']"
  by (simp add: handle_calls livy_server_literal)

theorem livy_server_not_normalised_witness:
  "map fst (execve_calls (trace (snd (handle (\<lambda>p a e. None)
       ''/opt/hue/apps/spark/src/spark/management/commands/livy_server.py'' []
       \<lparr>environ = Map.empty, trace = []\<rparr>)))) =
     [''/opt/hue/apps/spark/src/spark/management/commands/../../../../java/bin/livy-server''] \<and>
   ''/opt/hue/apps/spark/src/spark/management/commands/../../../../java/bin/livy-server'' \<noteq>
     ''/opt/hue/apps/spark/java/bin/livy-server''"
  using livy_server_not_normalised [of "\<lambda>p a e. None"
      "''/opt/hue/apps/spark/src/spark/management/commands/livy_server.py''" "[]"
      "\<lparr>environ = Map.empty, trace = []\<rparr>"]
  by (simp add: dirname_installed endswith_slash)

text \<open>
  C10. \<^verbatim>\<open>os.environ.copy()\<close> returns the content of the environment and leaves the
  environment as it is; so do the preparation and the whole of \<^verbatim>\<open>handle\<close>, whether the
  \<^verbatim>\<open>os.execve\<close> call succeeds or raises.
\<close>

theorem environ_unchanged:
  "fst (os_environ_copy w) = environ w \<and>
   environ (snd (os_environ_copy w)) = environ w \<and>
   environ (snd (prepare file args w)) = environ w \<and>
   environ (snd (handle sys file args w)) = environ w"
  by (simp add: os_environ_copy_def prepare_eq handle_environ)

theorem environ_unchanged_witness:
  "environ (snd (handle (\<lambda>p a e. Some (OSError 13))
       ''/opt/hue/apps/spark/src/spark/management/commands/livy_server.py'' [''yarn'']
       \<lparr>environ = [''HOME'' \<mapsto> ''/root''], trace = []\<rparr>)) = [''HOME'' \<mapsto> ''/root'']"
  using environ_unchanged [of "\<lparr>environ = [''HOME'' \<mapsto> ''/root''], trace = []\<rparr>"
      "''/opt/hue/apps/spark/src/spark/management/commands/livy_server.py''" "[''yarn'']"
      "\<lambda>p a e. Some (OSError 13)"]
  by simp

end
